theory Spec2Isabelle
  imports Main "HOL-Library.Sublist"
begin

section \<open>The index server: data model\<close>

text \<open>
  A shallow embedding of \<^verbatim>\<open>index_server.py\<close>. The module keeps two globals, \<^verbatim>\<open>index\<close> and
  \<^verbatim>\<open>stored_docs\<close>, and two durable artefacts, the directory \<^verbatim>\<open>./saved_index\<close> and the file
  \<^verbatim>\<open>stored_documents.pkl\<close>. All four are fields of one state record that every operation
  takes and returns. The vector index, the document loader, the query engine and the
  file system are collaborators: their behaviour is a parameter (the record \<open>env\<close>), and
  the type of the index object is a type variable. A collaborator call is fallible wherever
  the source guards that call somewhere with \<^verbatim>\<open>try\<close>; the constructors of configuration objects
  (\<^verbatim>\<open>OpenAIEmbedding\<close>, \<^verbatim>\<open>SentenceSplitter\<close>, \<^verbatim>\<open>VectorStoreIndex([])\<close>) are total. Calls to the
  logger do not change any value modelled here and are left out, except that the argument of
  a log call is evaluated first and may raise. The lock is not modelled: operations run one
  at a time. An index object is true in a condition, so \<^verbatim>\<open>not index\<close> holds exactly when
  \<^verbatim>\<open>index\<close> is \<^verbatim>\<open>None\<close>. A string is a list of characters, one per code point of the
  Python string, so \<open>length\<close> and \<open>take\<close> are \<^verbatim>\<open>len\<close> and the slice \<^verbatim>\<open>[:n]\<close>.
\<close>

datatype exn = TypeError string | Exception string

fun str_exn :: "exn \<Rightarrow> string" where
  "str_exn (TypeError m) = m"
| "str_exn (Exception m) = m"

datatype 'a result = Raises exn | Returns 'a

text \<open>A document part as the loader returns it: the fields \<^verbatim>\<open>id_\<close> and \<^verbatim>\<open>text\<close>.\<close>

record document =
  doc_id_attr :: string
  doc_text :: string

text \<open>
  The value bound to \<^verbatim>\<open>stored_docs\<close>: a dictionary from identifiers to previews, in insertion
  order, or whatever else \<^verbatim>\<open>pickle.load\<close> returned (a list, a string, a number, \<^verbatim>\<open>None\<close>).
\<close>

datatype pyobj = PyDict "(string \<times> string) list" | NotADict

text \<open>
  What is on disk at \<^verbatim>\<open>stored_documents.pkl\<close> and at \<^verbatim>\<open>./saved_index\<close>: nothing, content that
  the loader rejects with the given exception, or a value that loads.
\<close>

datatype pickle_file = PklAbsent | PklCorrupt exn | Pickled pyobj

datatype 'i snapshot = DirAbsent | DirCorrupt exn | Snapshot 'i

text \<open>The calls made to the collaborators that the properties below speak about, in order.\<close>

datatype event =
    QueryEngineQuery string
  | InsertDocument document bool
  | PersistIndex
  | PickleDump

record 'i state =
  index :: "'i option"
  stored_docs :: pyobj
  saved_index :: "'i snapshot"
  pkl_file :: pickle_file
  trace :: "event list"

text \<open>
  The collaborators. \<open>insert_document\<close> returns the index as the call left it, also when it
  raises. \<open>storage_persist\<close> and \<open>pickle_dump\<close> return \<open>None\<close> when the write succeeds and
  otherwise the exception together with what the failed write left on disk.
\<close>

record ('i, 'r) env =
  path_exists :: "string \<Rightarrow> bool"
  load_data :: "string \<Rightarrow> exn + document list"
  insert_document :: "'i \<Rightarrow> document \<Rightarrow> exn option \<times> 'i"
  empty_index :: "'i"
  storage_persist :: "'i \<Rightarrow> 'i snapshot \<Rightarrow> (exn \<times> 'i snapshot) option"
  pickle_dump :: "pyobj \<Rightarrow> pickle_file \<Rightarrow> (exn \<times> pickle_file) option"
  engine_query :: "'i \<Rightarrow> string \<Rightarrow> exn + 'r"

text \<open>What \<^verbatim>\<open>query_index\<close> returns: the response object, or a string.\<close>

datatype 'r query_result = Response 'r | Message string

text \<open>One element of the list that \<^verbatim>\<open>get_documents_list\<close> returns: the keys \<^verbatim>\<open>id\<close> and \<^verbatim>\<open>text\<close>.\<close>

record listing =
  entry_id :: string
  entry_text :: string

section \<open>Helpers from the standard library\<close>

text \<open>\<^verbatim>\<open>os.path.basename\<close>: what follows the last slash.\<close>

definition basename :: "string \<Rightarrow> string" where
  "basename p = rev (takeWhile (\<lambda>c. c \<noteq> CHR ''/'') (rev p))"

text \<open>
  \<^verbatim>\<open>d[k] = v\<close> on a dictionary: an existing key keeps its place, a new key goes to the end.
\<close>

fun dict_setitem :: "(string \<times> string) list \<Rightarrow> string \<Rightarrow> string \<Rightarrow> (string \<times> string) list" where
  "dict_setitem [] k v = [(k, v)]"
| "dict_setitem ((k', v') # kvs) k v =
     (if k' = k then (k, v) # kvs else (k', v') # dict_setitem kvs k v)"

text \<open>\<^verbatim>\<open>obj[k] = v\<close> on any object: only a dictionary accepts a string key.\<close>

fun setitem :: "pyobj \<Rightarrow> string \<Rightarrow> string \<Rightarrow> exn + pyobj" where
  "setitem (PyDict kvs) k v = Inr (PyDict (dict_setitem kvs k v))"
| "setitem NotADict k v = Inl (TypeError ''object does not support item assignment'')"

fun dict_get :: "(string \<times> string) list \<Rightarrow> string \<Rightarrow> string option" where
  "dict_get [] k = None"
| "dict_get ((k', v') # kvs) k = (if k' = k then Some v' else dict_get kvs k)"

fun lookup :: "pyobj \<Rightarrow> string \<Rightarrow> string option" where
  "lookup (PyDict kvs) k = dict_get kvs k"
| "lookup NotADict k = None"

section \<open>The operations\<close>

subsection \<open>Persistence\<close>

text \<open>\<^verbatim>\<open>index.storage_context.persist(persist_dir=index_name)\<close>, unguarded.\<close>

definition persist_index :: "('i, 'r) env \<Rightarrow> 'i \<Rightarrow> 'i state \<Rightarrow> exn option \<times> 'i state" where
  "persist_index env idx st =
     (case storage_persist env idx (saved_index st) of
        None \<Rightarrow> (None, st\<lparr>saved_index := Snapshot idx, trace := trace st @ [PersistIndex]\<rparr>)
      | Some (e, left) \<Rightarrow> (Some e, st\<lparr>saved_index := left, trace := trace st @ [PersistIndex]\<rparr>))"

text \<open>\<^verbatim>\<open>with open(pkl_name, "wb") as f: pickle.dump(stored_docs, f)\<close>, unguarded.\<close>

definition dump_stored_docs :: "('i, 'r) env \<Rightarrow> 'i state \<Rightarrow> exn option \<times> 'i state" where
  "dump_stored_docs env st =
     (case pickle_dump env (stored_docs st) (pkl_file st) of
        None \<Rightarrow> (None, st\<lparr>pkl_file := Pickled (stored_docs st), trace := trace st @ [PickleDump]\<rparr>)
      | Some (e, left) \<Rightarrow> (Some e, st\<lparr>pkl_file := left, trace := trace st @ [PickleDump]\<rparr>))"

subsection \<open>\<^verbatim>\<open>initialize_index\<close>\<close>

text \<open>
  Lines 43-44 and 47-48: bind a fresh empty index, then persist it. No handler surrounds the
  persist call, neither in the \<^verbatim>\<open>else\<close> branch nor inside the \<^verbatim>\<open>except\<close> block.
\<close>

definition create_index :: "('i, 'r) env \<Rightarrow> 'i state \<Rightarrow> exn option \<times> 'i state" where
  "create_index env st =
     persist_index env (empty_index env) (st\<lparr>index := Some (empty_index env)\<rparr>)"

text \<open>Lines 50-60: load the previews, or start from an empty dictionary.\<close>

definition load_stored_docs :: "'i state \<Rightarrow> 'i state" where
  "load_stored_docs st =
     (case pkl_file st of
        Pickled v \<Rightarrow> st\<lparr>stored_docs := v\<rparr>
      | PklCorrupt e \<Rightarrow> st\<lparr>stored_docs := PyDict []\<rparr>
      | PklAbsent \<Rightarrow> st\<lparr>stored_docs := PyDict []\<rparr>)"

definition initialize_index :: "('i, 'r) env \<Rightarrow> 'i state \<Rightarrow> unit result \<times> 'i state" where
  "initialize_index env st =
     (let (r, st1) =
        (case saved_index st of
           Snapshot idx \<Rightarrow> (None, st\<lparr>index := Some idx\<rparr>)
         | DirCorrupt e \<Rightarrow> create_index env st
         | DirAbsent \<Rightarrow> create_index env st)
      in case r of
           Some e \<Rightarrow> (Raises e, st1)
         | None \<Rightarrow> (Returns (), load_stored_docs st1))"

subsection \<open>\<^verbatim>\<open>query_index\<close>\<close>

text \<open>
  The argument is \<^verbatim>\<open>None\<close> or a string. Line 69 slices it for the log line before the
  \<^verbatim>\<open>try\<close> block is entered, which raises on \<^verbatim>\<open>None\<close>. Lines 71-73 are one call to the
  retrieval and synthesis collaborator: whichever of them raises, the handler is the same.
\<close>

definition query_index ::
  "('i, 'r) env \<Rightarrow> string option \<Rightarrow> 'i state \<Rightarrow> 'r query_result result \<times> 'i state" where
  "query_index env query_text st =
     (case index st of
        None \<Rightarrow> (Returns (Message ''Error: Index not ready.''), st)
      | Some idx \<Rightarrow>
          (case query_text of
             None \<Rightarrow> (Raises (TypeError ''object is not subscriptable''), st)
           | Some t \<Rightarrow>
               (let st' = st\<lparr>trace := trace st @ [QueryEngineQuery t]\<rparr>
                in case engine_query env idx t of
                     Inr response \<Rightarrow> (Returns (Response response), st')
                   | Inl e \<Rightarrow> (Returns (Message (''Error during query: '' @ str_exn e)), st'))))"

subsection \<open>\<^verbatim>\<open>insert_into_index\<close>\<close>

text \<open>Lines 108-110.\<close>

definition effective_doc_id :: "string option \<Rightarrow> string \<Rightarrow> string \<Rightarrow> string" where
  "effective_doc_id doc_id loader_id doc_file_path =
     (let effective = (case doc_id of Some d \<Rightarrow> d | None \<Rightarrow> loader_id)
      in if effective = [] then basename doc_file_path else effective)"

text \<open>Line 121.\<close>

definition preview :: "string \<Rightarrow> string" where
  "preview t = take 200 t @ (if length t > 200 then ''...'' else [])"

text \<open>Lines 123-124.\<close>

definition note_processed :: "string list \<Rightarrow> string \<Rightarrow> string list" where
  "note_processed processed_ids k = (if k \<in> set processed_ids then processed_ids else processed_ids @ [k])"

text \<open>
  Lines 114-119: \<^verbatim>\<open>index.insert_document\<close> under its handler. The global \<^verbatim>\<open>index\<close> is read
  again at every use; were it \<^verbatim>\<open>None\<close>, the attribute access would raise inside the
  \<^verbatim>\<open>try\<close> and no collaborator would be called.
\<close>

definition try_insert :: "('i, 'r) env \<Rightarrow> document \<Rightarrow> 'i state \<Rightarrow> exn option \<times> 'i state" where
  "try_insert env document st =
     (case index st of
        None \<Rightarrow> (Some (Exception ''NoneType object has no attribute insert_document''), st)
      | Some idx \<Rightarrow>
          (let (failure, idx') = insert_document env idx document
           in (failure, st\<lparr>index := Some idx',
                           trace := trace st @ [InsertDocument document (failure = None)]\<rparr>)))"

text \<open>
  The loop of lines 107-124 over the loaded parts. It returns the exception that left the
  loop, if any, the list \<^verbatim>\<open>processed_ids\<close>, and the state: what the loop changed before an
  exception stays changed.
\<close>

fun process_documents ::
  "('i, 'r) env \<Rightarrow> string \<Rightarrow> string option \<Rightarrow> document list \<Rightarrow> string list \<Rightarrow> 'i state
     \<Rightarrow> exn option \<times> string list \<times> 'i state" where
  "process_documents env doc_file_path doc_id [] processed_ids st = (None, processed_ids, st)"
| "process_documents env doc_file_path doc_id (document # documents) processed_ids st =
     (let effective = effective_doc_id doc_id (doc_id_attr document) doc_file_path;
          document' = document\<lparr>doc_id_attr := effective\<rparr>;
          (failure, st1) = try_insert env document' st
      in case failure of
           Some e \<Rightarrow> process_documents env doc_file_path doc_id documents processed_ids st1
         | None \<Rightarrow>
             (case setitem (stored_docs st1) effective (preview (doc_text document')) of
                Inl e \<Rightarrow> (Some e, processed_ids, st1)
              | Inr sd \<Rightarrow>
                  process_documents env doc_file_path doc_id documents
                    (note_processed processed_ids effective) (st1\<lparr>stored_docs := sd\<rparr>)))"

text \<open>
  Lines 126-140, once \<^verbatim>\<open>processed_ids\<close> is not empty: both writes are attempted, each under
  its own handler, so a failed write of the index does not stop the write of the previews.
\<close>

definition persist_changes :: "('i, 'r) env \<Rightarrow> 'i state \<Rightarrow> 'i state" where
  "persist_changes env st =
     (let st1 = (case index st of
                   None \<Rightarrow> st
                 | Some idx \<Rightarrow> snd (persist_index env idx st))
      in snd (dump_stored_docs env st1))"

text \<open>
  The whole operation. Every path returns \<^verbatim>\<open>None\<close>: the two early returns of lines 86-91,
  the early return of line 101, the handler of line 142 and the normal end.
\<close>

definition insert_into_index ::
  "('i, 'r) env \<Rightarrow> string \<Rightarrow> string option \<Rightarrow> 'i state \<Rightarrow> unit result \<times> 'i state" where
  "insert_into_index env doc_file_path doc_id st =
     (case index st of
        None \<Rightarrow> (Returns (), st)
      | Some idx \<Rightarrow>
          if \<not> path_exists env doc_file_path then (Returns (), st)
          else
            (case load_data env doc_file_path of
               Inl e \<Rightarrow> (Returns (), st)
             | Inr documents \<Rightarrow>
                 if documents = [] then (Returns (), st)
                 else
                   (case process_documents env doc_file_path doc_id documents [] st of
                      (Some e, processed_ids, st1) \<Rightarrow> (Returns (), st1)
                    | (None, processed_ids, st1) \<Rightarrow>
                        if processed_ids \<noteq> [] then (Returns (), persist_changes env st1)
                        else (Returns (), st1))))"

subsection \<open>\<^verbatim>\<open>get_documents_list\<close>\<close>

text \<open>Lines 150-165: the reload when \<^verbatim>\<open>stored_docs\<close> is not a dictionary.\<close>

definition reload_stored_docs :: "'i state \<Rightarrow> 'i state" where
  "reload_stored_docs st =
     (case stored_docs st of
        PyDict kvs \<Rightarrow> st
      | NotADict \<Rightarrow>
          (case pkl_file st of
             Pickled (PyDict kvs) \<Rightarrow> st\<lparr>stored_docs := PyDict kvs\<rparr>
           | Pickled NotADict \<Rightarrow> st\<lparr>stored_docs := PyDict []\<rparr>
           | PklCorrupt e \<Rightarrow> st\<lparr>stored_docs := PyDict []\<rparr>
           | PklAbsent \<Rightarrow> st\<lparr>stored_docs := PyDict []\<rparr>))"

text \<open>
  \<^verbatim>\<open>stored_docs.items()\<close>. Line 167 is reached only after the reload, which always leaves a
  dictionary (lemma \<open>reload_stored_docs_dict\<close> below), so the second equation is never used.
\<close>

fun items :: "pyobj \<Rightarrow> (string \<times> string) list" where
  "items (PyDict kvs) = kvs"
| "items NotADict = []"

definition get_documents_list :: "'i state \<Rightarrow> listing list \<times> 'i state" where
  "get_documents_list st =
     (let st' = reload_stored_docs st
      in (map (\<lambda>(doc_id, text_preview). \<lparr>entry_id = doc_id, entry_text = text_preview\<rparr>)
            (items (stored_docs st')), st'))"

section \<open>Reading the trace\<close>

text \<open>The collaborator calls that a run from \<open>st\<close> to \<open>st'\<close> added.\<close>

definition new_events :: "'i state \<Rightarrow> 'i state \<Rightarrow> event list" where
  "new_events st st' = drop (length (trace st)) (trace st')"

text \<open>The documents handed to \<^verbatim>\<open>insert_document\<close>, and those among them that it accepted.\<close>

fun attempted :: "event list \<Rightarrow> document list" where
  "attempted [] = []"
| "attempted (InsertDocument d ok # evs) = d # attempted evs"
| "attempted (ev # evs) = attempted evs"

fun inserted :: "event list \<Rightarrow> document list" where
  "inserted [] = []"
| "inserted (InsertDocument d ok # evs) = (if ok then d # inserted evs else inserted evs)"
| "inserted (ev # evs) = inserted evs"

text \<open>The identifier that line 112 writes into a loaded part.\<close>

definition tagged :: "string option \<Rightarrow> string \<Rightarrow> document \<Rightarrow> document" where
  "tagged doc_id doc_file_path document =
     document\<lparr>doc_id_attr := effective_doc_id doc_id (doc_id_attr document) doc_file_path\<rparr>"

text \<open>What lines 121-122 do to the dictionary for one inserted document.\<close>

definition record_preview :: "document \<Rightarrow> (string \<times> string) list \<Rightarrow> (string \<times> string) list" where
  "record_preview d kvs = dict_setitem kvs (doc_id_attr d) (preview (doc_text d))"

section \<open>A concrete environment\<close>

text \<open>
  An index that is the list of the documents inserted so far and refuses the text \<open>''bad''\<close>,
  five files, writes that succeed, and a query engine that fails on the query \<open>''crash''\<close>.
\<close>

definition demo_env :: "(document list, string) env" where
  "demo_env =
     \<lparr>path_exists = (\<lambda>p. p = ''docs/a.txt'' \<or> p = ''docs/two.txt'' \<or> p = ''docs/long.txt''
                           \<or> p = ''docs/bad.txt'' \<or> p = ''docs/pages.txt''),
      load_data = (\<lambda>p.
         if p = ''docs/a.txt'' then Inr [\<lparr>doc_id_attr = ''loader-1'', doc_text = ''hello world''\<rparr>]
         else if p = ''docs/two.txt''
           then Inr [\<lparr>doc_id_attr = ''p1'', doc_text = ''bad''\<rparr>,
                     \<lparr>doc_id_attr = ''p2'', doc_text = ''good''\<rparr>]
         else if p = ''docs/long.txt''
           then Inr [\<lparr>doc_id_attr = ''p3'', doc_text = replicate 201 (CHR ''x'')\<rparr>]
         else if p = ''docs/bad.txt''
           then Inr [\<lparr>doc_id_attr = ''p4'', doc_text = ''bad''\<rparr>]
         else if p = ''docs/pages.txt''
           then Inr [\<lparr>doc_id_attr = ''p5'', doc_text = replicate 150 (CHR ''a'')\<rparr>,
                     \<lparr>doc_id_attr = ''p6'', doc_text = replicate 100 (CHR ''b'')\<rparr>]
         else Inl (Exception ''cannot read'')),
      insert_document = (\<lambda>idx d.
         if doc_text d = ''bad'' then (Some (Exception ''embedding failed''), idx)
         else (None, idx @ [d])),
      empty_index = [],
      storage_persist = (\<lambda>idx on_disk. None),
      pickle_dump = (\<lambda>v on_disk. None),
      engine_query = (\<lambda>idx t.
         if t = ''crash'' then Inl (Exception ''boom'') else Inr (''answer to '' @ t))\<rparr>"

text \<open>The same collaborators on a disk that refuses every write and keeps what it holds.\<close>

definition readonly_env :: "(document list, string) env" where
  "readonly_env =
     demo_env\<lparr>storage_persist := (\<lambda>idx on_disk. Some (Exception ''read-only file system'', on_disk)),
              pickle_dump := (\<lambda>v on_disk. Some (Exception ''read-only file system'', on_disk))\<rparr>"

text \<open>The state of a fresh process on an empty disk, and the state after its initialisation.\<close>

definition blank :: "document list state" where
  "blank = \<lparr>index = None, stored_docs = PyDict [], saved_index = DirAbsent,
            pkl_file = PklAbsent, trace = []\<rparr>"

text \<open>A fresh process on a disk where neither artefact loads.\<close>

definition damaged :: "document list state" where
  "damaged = \<lparr>index = None, stored_docs = PyDict [],
              saved_index = DirCorrupt (Exception ''unexpected end of docstore.json''),
              pkl_file = PklCorrupt (Exception ''pickle data was truncated''), trace = []\<rparr>"

text \<open>
  A fresh process on a disk whose preview file is a well-formed pickle of a value that is not
  a dictionary, and the state in which \<^verbatim>\<open>initialize_index\<close> leaves that process.
\<close>

definition mistyped_disk :: "document list state" where
  "mistyped_disk = \<lparr>index = None, stored_docs = PyDict [], saved_index = DirAbsent,
                    pkl_file = Pickled NotADict, trace = []\<rparr>"

definition mistyped :: "document list state" where
  "mistyped = \<lparr>index = Some [], stored_docs = NotADict, saved_index = Snapshot [],
               pkl_file = Pickled NotADict, trace = [PersistIndex]\<rparr>"

definition ready :: "document list state" where
  "ready = \<lparr>index = Some [], stored_docs = PyDict [], saved_index = Snapshot [],
            pkl_file = PklAbsent, trace = []\<rparr>"

section \<open>Auxiliary facts\<close>

lemma dict_get_setitem:
  "dict_get (dict_setitem kvs k v) k' = (if k' = k then Some v else dict_get kvs k')"
  by (induction kvs) auto

lemma dict_get_in_set: "dict_get kvs k = Some v \<Longrightarrow> (k, v) \<in> set kvs"
  by (induction kvs) (auto split: if_splits)

lemma lookup_setitem:
  "setitem obj k v = Inr obj' \<Longrightarrow> lookup obj' k' = (if k' = k then Some v else lookup obj k')"
  by (cases obj) (auto simp: dict_get_setitem)

lemma attempted_append: "attempted (xs @ ys) = attempted xs @ attempted ys"
  by (induction xs rule: attempted.induct) auto

lemma inserted_append: "inserted (xs @ ys) = inserted xs @ inserted ys"
  by (induction xs rule: inserted.induct) auto

lemma new_events_append: "trace st' = trace st @ evs \<Longrightarrow> new_events st st' = evs"
  by (simp add: new_events_def)

lemma try_insert_frame:
  assumes "try_insert env d st = (failure, st1)"
  shows "stored_docs st1 = stored_docs st" "saved_index st1 = saved_index st" "pkl_file st1 = pkl_file st"
  using assms by (auto simp: try_insert_def split: option.splits prod.splits)

lemma try_insert_Some:
  assumes "try_insert env d st = (failure, st1)" "index st = Some idx"
  shows "trace st1 = trace st @ [InsertDocument d (failure = None)]" "index st1 \<noteq> None"
  using assms by (auto simp: try_insert_def split: option.splits prod.splits)

lemma try_insert_None:
  assumes "try_insert env d st = (failure, st1)" "index st = None"
  shows "st1 = st" "failure \<noteq> None"
  using assms by (auto simp: try_insert_def split: option.splits prod.splits)

lemma try_insert_trace:
  assumes "try_insert env d st = (failure, st1)"
  shows "\<exists>evs. trace st1 = trace st @ evs \<and> PersistIndex \<notin> set evs \<and> PickleDump \<notin> set evs
           \<and> inserted evs = (if failure = None then [d] else []) \<and> set (attempted evs) \<subseteq> {d}"
  using assms by (auto simp: try_insert_def split: option.splits prod.splits)

lemma process_documents_frame:
  "process_documents env p did docs pids st = (r, pids', st') \<Longrightarrow>
     saved_index st' = saved_index st \<and> pkl_file st' = pkl_file st \<and>
     (\<exists>evs. trace st' = trace st @ evs \<and> PersistIndex \<notin> set evs \<and> PickleDump \<notin> set evs \<and>
        set (attempted evs) \<subseteq> tagged did p ` set docs \<and>
        set pids' \<subseteq> set pids \<union> doc_id_attr ` set (inserted evs) \<and>
        (\<forall>k. k \<notin> doc_id_attr ` set (inserted evs) \<longrightarrow>
           lookup (stored_docs st') k = lookup (stored_docs st) k))"
proof (induction docs arbitrary: pids st)
  case Nil
  then show ?case by simp
next
  case (Cons d docs)
  let ?d = "tagged did p d"
  obtain failure st1 where ti: "try_insert env ?d st = (failure, st1)"
    by (cases "try_insert env ?d st")
  note fr = try_insert_frame[OF ti]
  obtain evs1 where evs1: "trace st1 = trace st @ evs1" "PersistIndex \<notin> set evs1" "PickleDump \<notin> set evs1"
    "inserted evs1 = (if failure = None then [?d] else [])" "set (attempted evs1) \<subseteq> {?d}"
    using try_insert_trace[OF ti] by blast
  show ?case
  proof (cases failure)
    case (Some e)
    with Cons.prems ti have "process_documents env p did docs pids st1 = (r, pids', st')"
      by (simp add: tagged_def Let_def)
    from Cons.IH[OF this] obtain evs where
      "saved_index st' = saved_index st1" "pkl_file st' = pkl_file st1"
      "trace st' = trace st1 @ evs" "PersistIndex \<notin> set evs" "PickleDump \<notin> set evs"
      "set (attempted evs) \<subseteq> tagged did p ` set docs"
      "set pids' \<subseteq> set pids \<union> doc_id_attr ` set (inserted evs)"
      "\<forall>k. k \<notin> doc_id_attr ` set (inserted evs) \<longrightarrow> lookup (stored_docs st') k = lookup (stored_docs st1) k"
      by blast
    with fr evs1 Some show ?thesis
      by (intro conjI exI[of _ "evs1 @ evs"]) (auto simp: inserted_append attempted_append)
  next
    case None
    show ?thesis
    proof (cases "setitem (stored_docs st1) (doc_id_attr ?d) (preview (doc_text ?d))")
      case (Inl e)
      with Cons.prems ti None have "st' = st1" "pids' = pids"
        by (simp_all add: tagged_def Let_def)
      with fr evs1 show ?thesis
        by (intro conjI exI[of _ evs1]) auto
    next
      case (Inr sd)
      with Cons.prems ti None have
        "process_documents env p did docs (note_processed pids (doc_id_attr ?d)) (st1\<lparr>stored_docs := sd\<rparr>) = (r, pids', st')"
        by (simp add: tagged_def Let_def)
      from Cons.IH[OF this] obtain evs where
        "saved_index st' = saved_index st1" "pkl_file st' = pkl_file st1"
        "trace st' = trace st1 @ evs" "PersistIndex \<notin> set evs" "PickleDump \<notin> set evs"
        "set (attempted evs) \<subseteq> tagged did p ` set docs"
        "set pids' \<subseteq> set (note_processed pids (doc_id_attr ?d)) \<union> doc_id_attr ` set (inserted evs)"
        "\<forall>k. k \<notin> doc_id_attr ` set (inserted evs) \<longrightarrow> lookup (stored_docs st') k = lookup sd k"
        by auto
      moreover have "set (note_processed pids (doc_id_attr ?d)) \<subseteq> insert (doc_id_attr ?d) (set pids)"
        by (auto simp: note_processed_def)
      ultimately show ?thesis using fr evs1 None lookup_setitem[OF Inr]
        by (intro conjI exI[of _ "evs1 @ evs"]) (auto simp: inserted_append attempted_append)
    qed
  qed
qed


lemma note_processed_nonempty: "note_processed ps k \<noteq> []"
  by (cases "k \<in> set ps") (auto simp: note_processed_def)

lemma fold_note_processed_nonempty:
  "pids \<noteq> [] \<Longrightarrow> fold (\<lambda>d ps. note_processed ps (doc_id_attr d)) ds pids \<noteq> []"
  by (induction ds arbitrary: pids) (simp_all add: note_processed_nonempty)

lemma note_processed_fold_empty:
  "(fold (\<lambda>d ps. note_processed ps (doc_id_attr d)) ds [] = []) = (ds = [])"
  by (cases ds) (simp_all add: fold_note_processed_nonempty note_processed_nonempty)

lemma process_documents_dict:
  "stored_docs st = PyDict kvs \<Longrightarrow> index st = Some idx \<Longrightarrow>
   process_documents env p did docs pids st = (r, pids', st') \<Longrightarrow>
     r = None \<and> index st' \<noteq> None \<and>
     (\<exists>evs. trace st' = trace st @ evs \<and> attempted evs = map (tagged did p) docs \<and>
        stored_docs st' = PyDict (fold record_preview (inserted evs) kvs) \<and>
        pids' = fold (\<lambda>d ps. note_processed ps (doc_id_attr d)) (inserted evs) pids)"
proof (induction docs arbitrary: pids st kvs idx)
  case Nil
  then show ?case by simp
next
  case (Cons d docs)
  let ?d = "tagged did p d"
  obtain failure st1 where ti: "try_insert env ?d st = (failure, st1)"
    by (cases "try_insert env ?d st")
  note fr = try_insert_frame[OF ti]
  note tr = try_insert_Some[OF ti Cons.prems(2)]
  from tr(2) obtain idx1 where idx1: "index st1 = Some idx1" by auto
  have sd1: "stored_docs st1 = PyDict kvs" using fr(1) Cons.prems(1) by simp
  show ?case
  proof (cases failure)
    case (Some e)
    with Cons.prems ti have "process_documents env p did docs pids st1 = (r, pids', st')"
      by (simp add: tagged_def Let_def)
    from Cons.IH[OF sd1 idx1 this] obtain evs where
      "r = None" "index st' \<noteq> None" "trace st' = trace st1 @ evs"
      "attempted evs = map (tagged did p) docs"
      "stored_docs st' = PyDict (fold record_preview (inserted evs) kvs)"
      "pids' = fold (\<lambda>d ps. note_processed ps (doc_id_attr d)) (inserted evs) pids"
      by blast
    with tr Some show ?thesis
      by (intro conjI exI[of _ "InsertDocument ?d False # evs"]) auto
  next
    case None
    let ?sd = "PyDict (record_preview ?d kvs)"
    have si: "setitem (stored_docs st1) (doc_id_attr ?d) (preview (doc_text ?d)) = Inr ?sd"
      using sd1 by (simp add: record_preview_def)
    with Cons.prems ti None have
      "process_documents env p did docs (note_processed pids (doc_id_attr ?d)) (st1\<lparr>stored_docs := ?sd\<rparr>) = (r, pids', st')"
      by (simp add: tagged_def Let_def)
    from Cons.IH[OF _ _ this, of "record_preview ?d kvs" idx1] idx1 obtain evs where
      "r = None" "index st' \<noteq> None" "trace st' = trace st1 @ evs"
      "attempted evs = map (tagged did p) docs"
      "stored_docs st' = PyDict (fold record_preview (inserted evs) (record_preview ?d kvs))"
      "pids' = fold (\<lambda>d ps. note_processed ps (doc_id_attr d)) (inserted evs) (note_processed pids (doc_id_attr ?d))"
      by auto
    with tr None show ?thesis
      by (intro conjI exI[of _ "InsertDocument ?d True # evs"]) auto
  qed
qed

lemma persist_index_facts:
  "trace (snd (persist_index env idx st)) = trace st @ [PersistIndex]"
  "stored_docs (snd (persist_index env idx st)) = stored_docs st"
  "index (snd (persist_index env idx st)) = index st"
  "pkl_file (snd (persist_index env idx st)) = pkl_file st"
  by (simp_all add: persist_index_def split: option.splits prod.splits)

lemma dump_stored_docs_facts:
  "trace (snd (dump_stored_docs env st)) = trace st @ [PickleDump]"
  "stored_docs (snd (dump_stored_docs env st)) = stored_docs st"
  "index (snd (dump_stored_docs env st)) = index st"
  "saved_index (snd (dump_stored_docs env st)) = saved_index st"
  by (simp_all add: dump_stored_docs_def split: option.splits prod.splits)

lemma persist_changes_Some:
  assumes "index st = Some idx"
  shows "trace (persist_changes env st) = trace st @ [PersistIndex, PickleDump]"
  using assms by (simp add: persist_changes_def Let_def persist_index_facts dump_stored_docs_facts)

lemma persist_changes_stored_docs:
  "stored_docs (persist_changes env st) = stored_docs st"
  by (simp add: persist_changes_def Let_def persist_index_facts dump_stored_docs_facts split: option.splits)

lemma persist_changes_trace:
  "\<exists>evs. trace (persist_changes env st) = trace st @ evs \<and> inserted evs = [] \<and> attempted evs = []"
  by (cases "index st") (simp_all add: persist_changes_def Let_def persist_index_facts dump_stored_docs_facts)

lemma persist_changes_disk:
  assumes "index st = Some idx"
  shows "saved_index (persist_changes env st) =
           (case storage_persist env idx (saved_index st) of
              None \<Rightarrow> Snapshot idx | Some (e, left) \<Rightarrow> left)"
    and "pkl_file (persist_changes env st) =
           (case pickle_dump env (stored_docs st) (pkl_file st) of
              None \<Rightarrow> Pickled (stored_docs st) | Some (e, left) \<Rightarrow> left)"
    and "index (persist_changes env st) = Some idx"
  using assms
  by (simp_all add: persist_changes_def Let_def persist_index_def dump_stored_docs_def
        split: option.splits prod.splits)

lemma inserted_subset_attempted: "set (inserted evs) \<subseteq> set (attempted evs)"
  by (induction evs rule: inserted.induct) auto

lemma fold_record_preview_last:
  "ds \<noteq> [] \<Longrightarrow> \<forall>d \<in> set ds. doc_id_attr d = k \<Longrightarrow>
     dict_get (fold record_preview ds kvs) k = Some (preview (doc_text (last ds)))"
proof (induction ds arbitrary: kvs)
  case Nil
  then show ?case by simp
next
  case (Cons d ds)
  show ?case
  proof (cases "ds = []")
    case True
    with Cons.prems show ?thesis by (simp add: record_preview_def dict_get_setitem)
  next
    case False
    with Cons show ?thesis by simp
  qed
qed

subsection \<open>The whole insertion\<close>

lemma new_events_same: "new_events st st = []"
  by (simp add: new_events_def)

lemma insert_into_index_cases:
  assumes "insert_into_index env p did st = (r, st')"
  obtains (unchanged) "r = Returns ()" "st' = st"
  | (looped) idx docs e pids st1 where
      "r = Returns ()" "index st = Some idx" "path_exists env p" "load_data env p = Inr docs"
      "docs \<noteq> []" "process_documents env p did docs [] st = (e, pids, st1)"
      "st' = (if e = None \<and> pids \<noteq> [] then persist_changes env st1 else st1)"
  using assms
  by (auto simp: insert_into_index_def split: option.splits if_splits sum.splits prod.splits)

lemma insert_into_index_loaded:
  assumes "index st = Some idx" "path_exists env p" "load_data env p = Inr docs" "docs \<noteq> []"
  shows "\<exists>e pids st1. process_documents env p did docs [] st = (e, pids, st1) \<and>
           insert_into_index env p did st =
             (Returns (), if e = None \<and> pids \<noteq> [] then persist_changes env st1 else st1)"
proof -
  obtain e pids st1 where "process_documents env p did docs [] st = (e, pids, st1)"
    by (cases "process_documents env p did docs [] st")
  with assms show ?thesis
    by (cases e) (simp_all add: insert_into_index_def)
qed

lemma insert_into_index_loop_events:
  assumes "process_documents env p did docs [] st = (e, pids, st1)"
      and "st' = (if e = None \<and> pids \<noteq> [] then persist_changes env st1 else st1)"
      and "trace st1 = trace st @ evs"
  shows "stored_docs st' = stored_docs st1"
    and "inserted (new_events st st') = inserted evs"
    and "attempted (new_events st st') = attempted evs"
proof -
  obtain evs2 where evs2: "trace st' = trace st1 @ evs2" "inserted evs2 = []" "attempted evs2 = []"
    using persist_changes_trace[of env st1] assms(2) by (cases "e = None \<and> pids \<noteq> []") auto
  have ne: "new_events st st' = evs @ evs2"
    using assms(3) evs2(1) by (simp add: new_events_def)
  show "stored_docs st' = stored_docs st1"
    using assms(2) by (simp add: persist_changes_stored_docs)
  show "inserted (new_events st st') = inserted evs"
    using ne evs2(2) by (simp add: inserted_append)
  show "attempted (new_events st st') = attempted evs"
    using ne evs2(3) by (simp add: attempted_append)
qed

lemma reload_stored_docs_dict: "\<exists>kvs. stored_docs (reload_stored_docs st) = PyDict kvs"
  by (simp add: reload_stored_docs_def split: pyobj.splits pickle_file.splits)

lemma get_documents_list_dict:
  "stored_docs st = PyDict kvs \<Longrightarrow>
     fst (get_documents_list st) = map (\<lambda>(k, v). \<lparr>entry_id = k, entry_text = v\<rparr>) kvs"
  by (simp add: get_documents_list_def reload_stored_docs_def)

lemma load_stored_docs_facts:
  "index (load_stored_docs s) = index s"
  "saved_index (load_stored_docs s) = saved_index s"
  "trace (load_stored_docs s) = trace s"
  "pkl_file (load_stored_docs s) = pkl_file s"
  "pkl_file s = PklAbsent \<or> (\<exists>e. pkl_file s = PklCorrupt e) \<longrightarrow> stored_docs (load_stored_docs s) = PyDict []"
  "\<forall>v. pkl_file s = Pickled v \<longrightarrow> stored_docs (load_stored_docs s) = v"
  by (auto simp: load_stored_docs_def split: pickle_file.splits)

lemma get_documents_list_after_load:
  "(\<forall>kvs. pkl_file s \<noteq> Pickled (PyDict kvs)) \<longrightarrow> fst (get_documents_list (load_stored_docs s)) = []"
  by (cases "pkl_file s")
     (auto simp: load_stored_docs_def get_documents_list_def reload_stored_docs_def
        split: pyobj.splits)

subsection \<open>Runs in the concrete environment\<close>

lemmas demo_run_simps =
  insert_into_index_def demo_env_def ready_def try_insert_def effective_doc_id_def
  basename_def note_processed_def Let_def preview_def persist_changes_def persist_index_def
  dump_stored_docs_def

lemma long_text_accepted: "replicate 201 (CHR ''x'') \<noteq> ''bad''"
proof
  assume "replicate 201 (CHR ''x'') = ''bad''"
  then have "length (replicate 201 (CHR ''x'')) = length ''bad''" by (rule arg_cong)
  then show False by simp
qed

lemma demo_run_two:
  "insert_into_index demo_env ''docs/two.txt'' None ready =
     (Returns (),
      \<lparr>index = Some [\<lparr>doc_id_attr = ''p2'', doc_text = ''good''\<rparr>],
       stored_docs = PyDict [(''p2'', ''good'')],
       saved_index = Snapshot [\<lparr>doc_id_attr = ''p2'', doc_text = ''good''\<rparr>],
       pkl_file = Pickled (PyDict [(''p2'', ''good'')]),
       trace = [InsertDocument \<lparr>doc_id_attr = ''p1'', doc_text = ''bad''\<rparr> False,
                InsertDocument \<lparr>doc_id_attr = ''p2'', doc_text = ''good''\<rparr> True,
                PersistIndex, PickleDump]\<rparr>)"
  by (simp add: demo_run_simps)

lemma demo_run_bad:
  "insert_into_index demo_env ''docs/bad.txt'' None ready =
     (Returns (),
      ready\<lparr>trace := [InsertDocument \<lparr>doc_id_attr = ''p4'', doc_text = ''bad''\<rparr> False]\<rparr>)"
  by (simp add: demo_run_simps)

lemma demo_run_a:
  "insert_into_index demo_env ''docs/a.txt'' (Some ''d1'') ready =
     (Returns (),
      \<lparr>index = Some [\<lparr>doc_id_attr = ''d1'', doc_text = ''hello world''\<rparr>],
       stored_docs = PyDict [(''d1'', ''hello world'')],
       saved_index = Snapshot [\<lparr>doc_id_attr = ''d1'', doc_text = ''hello world''\<rparr>],
       pkl_file = Pickled (PyDict [(''d1'', ''hello world'')]),
       trace = [InsertDocument \<lparr>doc_id_attr = ''d1'', doc_text = ''hello world''\<rparr> True,
                PersistIndex, PickleDump]\<rparr>)"
  by (simp add: demo_run_simps)

lemma demo_run_long:
  "insert_into_index demo_env ''docs/long.txt'' (Some ''d1'') ready =
     (Returns (),
      \<lparr>index = Some [\<lparr>doc_id_attr = ''d1'', doc_text = replicate 201 (CHR ''x'')\<rparr>],
       stored_docs = PyDict [(''d1'', replicate 200 (CHR ''x'') @ ''...'')],
       saved_index = Snapshot [\<lparr>doc_id_attr = ''d1'', doc_text = replicate 201 (CHR ''x'')\<rparr>],
       pkl_file = Pickled (PyDict [(''d1'', replicate 200 (CHR ''x'') @ ''...'')]),
       trace = [InsertDocument \<lparr>doc_id_attr = ''d1'', doc_text = replicate 201 (CHR ''x'')\<rparr> True,
                PersistIndex, PickleDump]\<rparr>)"
  by (simp add: demo_run_simps long_text_accepted)

lemma demo_run_pages:
  "insert_into_index demo_env ''docs/pages.txt'' (Some ''d1'') ready =
     (Returns (),
      \<lparr>index = Some [\<lparr>doc_id_attr = ''d1'', doc_text = replicate 150 (CHR ''a'')\<rparr>,
                     \<lparr>doc_id_attr = ''d1'', doc_text = replicate 100 (CHR ''b'')\<rparr>],
       stored_docs = PyDict [(''d1'', replicate 100 (CHR ''b''))],
       saved_index = Snapshot [\<lparr>doc_id_attr = ''d1'', doc_text = replicate 150 (CHR ''a'')\<rparr>,
                               \<lparr>doc_id_attr = ''d1'', doc_text = replicate 100 (CHR ''b'')\<rparr>],
       pkl_file = Pickled (PyDict [(''d1'', replicate 100 (CHR ''b''))]),
       trace = [InsertDocument \<lparr>doc_id_attr = ''d1'', doc_text = replicate 150 (CHR ''a'')\<rparr> True,
                InsertDocument \<lparr>doc_id_attr = ''d1'', doc_text = replicate 100 (CHR ''b'')\<rparr> True,
                PersistIndex, PickleDump]\<rparr>)"
proof -
  have a: "replicate 150 (CHR ''a'') \<noteq> ''bad''"
  proof
    assume "replicate 150 (CHR ''a'') = ''bad''"
    then have "length (replicate 150 (CHR ''a'')) = length ''bad''" by (rule arg_cong)
    then show False by simp
  qed
  have b: "replicate 100 (CHR ''b'') \<noteq> ''bad''"
  proof
    assume "replicate 100 (CHR ''b'') = ''bad''"
    then have "length (replicate 100 (CHR ''b'')) = length ''bad''" by (rule arg_cong)
    then show False by simp
  qed
  show ?thesis by (simp add: demo_run_simps a b)
qed

lemma demo_run_readonly:
  "insert_into_index readonly_env ''docs/a.txt'' (Some ''d1'') ready =
     (Returns (),
      ready\<lparr>index := Some [\<lparr>doc_id_attr = ''d1'', doc_text = ''hello world''\<rparr>],
            stored_docs := PyDict [(''d1'', ''hello world'')],
            trace := [InsertDocument \<lparr>doc_id_attr = ''d1'', doc_text = ''hello world''\<rparr> True,
                      PersistIndex, PickleDump]\<rparr>)"
  by (simp add: demo_run_simps readonly_env_def)

lemma demo_init_mistyped: "initialize_index demo_env mistyped_disk = (Returns (), mistyped)"
  by (simp add: initialize_index_def create_index_def persist_index_def load_stored_docs_def
        demo_env_def mistyped_disk_def mistyped_def)

lemma demo_run_mistyped:
  "insert_into_index demo_env ''docs/a.txt'' (Some ''d1'') mistyped =
     (Returns (),
      mistyped\<lparr>index := Some [\<lparr>doc_id_attr = ''d1'', doc_text = ''hello world''\<rparr>],
               trace := [PersistIndex,
                         InsertDocument \<lparr>doc_id_attr = ''d1'', doc_text = ''hello world''\<rparr> True]\<rparr>)"
  by (simp add: insert_into_index_def demo_env_def mistyped_def try_insert_def effective_doc_id_def
        Let_def)

section \<open>Queries\<close>

text \<open>
  Claim C1, as the specification states it, fails: the query whose text is the empty string
  is answered by the query engine. Here the engine is called with the empty text and its
  response is what the call returns.
\<close>

theorem query_index_empty_text_counterexample:
  "query_index demo_env (Some []) ready =
     (Returns (Response ''answer to ''), ready\<lparr>trace := [QueryEngineQuery []]\<rparr>)"
  by (simp add: query_index_def demo_env_def ready_def)

text \<open>
  Claim C1, amended. When the text is absent, no call to the query engine is made and no
  answer is produced: before initialisation the call returns the string
  \<^verbatim>\<open>Error: Index not ready.\<close>, afterwards slicing the text for the log line raises a
  \<^verbatim>\<open>TypeError\<close>; the state, trace included, is as before. When the text is the empty string
  and the index is initialised, the engine is called once with the empty text, and the call
  returns the engine's response, or the string \<^verbatim>\<open>Error during query: \<close> followed by the text
  of the exception that the engine raised.
\<close>

theorem query_index_absent_or_empty_text:
  "query_index env None st =
     (if index st = None then Returns (Message ''Error: Index not ready.'')
      else Raises (TypeError ''object is not subscriptable''), st)
   \<and> (\<forall>idx. index st = Some idx \<longrightarrow>
        query_index env (Some []) st =
          (Returns (case engine_query env idx [] of
                      Inr response \<Rightarrow> Response response
                    | Inl e \<Rightarrow> Message (''Error during query: '' @ str_exn e)),
           st\<lparr>trace := trace st @ [QueryEngineQuery []]\<rparr>))"
  by (auto simp: query_index_def Let_def split: option.splits sum.splits)

theorem query_index_absent_or_empty_text_witness:
  "index ready = Some [] \<and>
   query_index demo_env None ready = (Raises (TypeError ''object is not subscriptable''), ready) \<and>
   query_index demo_env (Some []) ready =
     (Returns (Response ''answer to ''), ready\<lparr>trace := trace ready @ [QueryEngineQuery []]\<rparr>)"
  using query_index_absent_or_empty_text [of demo_env ready]
  by (simp add: demo_env_def ready_def)

text \<open>
  Claim C2, as the specification states it, fails: when the query engine raises, the string
  returned to the caller contains the text of the exception.
\<close>

theorem query_index_leaks_error_counterexample:
  "engine_query demo_env [] ''crash'' = Inl (Exception ''boom'') \<and>
   fst (query_index demo_env (Some ''crash'') ready) = Returns (Message ''Error during query: boom'') \<and>
   sublist ''boom'' ''Error during query: boom''"
proof -
  have "''Error during query: boom'' = ''Error during query: '' @ ''boom'' @ []" by simp
  then have "sublist ''boom'' ''Error during query: boom''"
    unfolding sublist_def by blast
  then show ?thesis
    by (simp add: query_index_def demo_env_def ready_def)
qed

text \<open>
  Claim C2, amended. On an initialised index, when the query engine raises, the call does
  not raise: it returns the string \<^verbatim>\<open>Error during query: \<close> followed by the text of the
  exception, so the text of the exception is part of what the caller receives.
\<close>

theorem query_index_engine_failure:
  assumes "index st = Some idx" and "engine_query env idx t = Inl e"
  shows "fst (query_index env (Some t) st) = Returns (Message (''Error during query: '' @ str_exn e))
         \<and> sublist (str_exn e) (''Error during query: '' @ str_exn e)"
proof -
  have "sublist (str_exn e) (''Error during query: '' @ str_exn e @ [])"
    by (rule sublist_appendI)
  then have "sublist (str_exn e) (''Error during query: '' @ str_exn e)"
    by simp
  with assms show ?thesis
    by (simp add: query_index_def Let_def)
qed

theorem query_index_engine_failure_witness:
  "index ready = Some [] \<and> engine_query demo_env [] ''crash'' = Inl (Exception ''boom'') \<and>
   fst (query_index demo_env (Some ''crash'') ready) = Returns (Message ''Error during query: boom'')"
proof -
  have i: "index ready = Some []" by (simp add: ready_def)
  have q: "engine_query demo_env [] ''crash'' = Inl (Exception ''boom'')" by (simp add: demo_env_def)
  show ?thesis using query_index_engine_failure [OF i q] i q by simp
qed

section \<open>Operations that return early\<close>

text \<open>
  Claim C3, as the specification states it, fails for insertion: called while \<^verbatim>\<open>index\<close> is
  \<^verbatim>\<open>None\<close>, \<^verbatim>\<open>insert_into_index\<close> returns \<^verbatim>\<open>None\<close> without raising, which is also what a
  successful insertion returns.
\<close>

theorem insert_before_initialize_counterexample:
  "index blank = None \<and>
   fst (insert_into_index demo_env ''docs/a.txt'' None blank) = Returns () \<and>
   fst (insert_into_index demo_env ''docs/a.txt'' None ready) = Returns ()"
  by (simp add: insert_into_index_def demo_env_def blank_def ready_def try_insert_def
        effective_doc_id_def note_processed_def Let_def)

text \<open>
  Claim C3, amended. While \<^verbatim>\<open>index\<close> is \<^verbatim>\<open>None\<close>, a query returns the string
  \<^verbatim>\<open>Error: Index not ready.\<close> and an insertion returns \<^verbatim>\<open>None\<close>; neither raises, and
  neither changes the state, the disk or the trace of collaborator calls.
\<close>

theorem operations_before_initialize:
  assumes "index st = None"
  shows "query_index env query_text st = (Returns (Message ''Error: Index not ready.''), st)
         \<and> insert_into_index env doc_file_path doc_id st = (Returns (), st)"
  using assms by (simp add: query_index_def insert_into_index_def)

theorem operations_before_initialize_witness:
  "index blank = None \<and>
   query_index demo_env (Some ''hello'') blank = (Returns (Message ''Error: Index not ready.''), blank) \<and>
   insert_into_index demo_env ''docs/a.txt'' None blank = (Returns (), blank)"
proof -
  have i: "index blank = None" by (simp add: blank_def)
  show ?thesis using operations_before_initialize [OF i, of demo_env "Some ''hello''" "''docs/a.txt''" None] i
    by simp
qed

text \<open>
  Claim C7, as the specification states it, fails in its first half: for a path that does
  not exist, \<^verbatim>\<open>insert_into_index\<close> returns \<^verbatim>\<open>None\<close> without raising; no error value reaches
  the caller.
\<close>

theorem insert_missing_file_counterexample:
  "\<not> path_exists demo_env ''/nonexistent/path'' \<and>
   fst (insert_into_index demo_env ''/nonexistent/path'' None ready) = Returns ()"
  by (simp add: insert_into_index_def demo_env_def ready_def)

text \<open>
  Claim C7, amended. For a path that does not exist, the insertion returns \<^verbatim>\<open>None\<close> without
  raising, and the whole state is as it was before the call: the index, the previews, the
  saved index, the preview file, and the trace of collaborator calls.
\<close>

theorem insert_missing_file:
  assumes "\<not> path_exists env doc_file_path"
  shows "insert_into_index env doc_file_path doc_id st = (Returns (), st)"
  using assms by (simp add: insert_into_index_def split: option.splits)

theorem insert_missing_file_witness:
  "\<not> path_exists demo_env ''/nonexistent/path'' \<and>
   insert_into_index demo_env ''/nonexistent/path'' None ready = (Returns (), ready)"
proof -
  have p: "\<not> path_exists demo_env ''/nonexistent/path''" by (simp add: demo_env_def)
  show ?thesis using insert_missing_file [OF p, of None ready] p by simp
qed

section \<open>Insertion\<close>

text \<open>
  Claim C4, as the specification states it, fails in two ways. A file that loads as two parts,
  both accepted under the identifier \<^verbatim>\<open>d1\<close>, is listed with the preview of the second part
  only: 100 characters and no ellipsis, although the file holds 250 characters. And when
  \<^verbatim>\<open>initialize_index\<close> has bound a pickled value that is not a dictionary to \<^verbatim>\<open>stored_docs\<close>,
  a part that the index accepted is not listed at all.
\<close>

theorem insert_then_list_counterexample:
  "load_data demo_env ''docs/pages.txt'' =
     Inr [\<lparr>doc_id_attr = ''p5'', doc_text = replicate 150 (CHR ''a'')\<rparr>,
          \<lparr>doc_id_attr = ''p6'', doc_text = replicate 100 (CHR ''b'')\<rparr>] \<and>
   inserted (new_events ready (snd (insert_into_index demo_env ''docs/pages.txt'' (Some ''d1'') ready)))
     = [\<lparr>doc_id_attr = ''d1'', doc_text = replicate 150 (CHR ''a'')\<rparr>,
        \<lparr>doc_id_attr = ''d1'', doc_text = replicate 100 (CHR ''b'')\<rparr>] \<and>
   fst (get_documents_list (snd (insert_into_index demo_env ''docs/pages.txt'' (Some ''d1'') ready)))
     = [\<lparr>entry_id = ''d1'', entry_text = replicate 100 (CHR ''b'')\<rparr>] \<and>
   initialize_index demo_env mistyped_disk = (Returns (), mistyped) \<and>
   inserted (new_events mistyped (snd (insert_into_index demo_env ''docs/a.txt'' (Some ''d1'') mistyped)))
     = [\<lparr>doc_id_attr = ''d1'', doc_text = ''hello world''\<rparr>] \<and>
   fst (get_documents_list (snd (insert_into_index demo_env ''docs/a.txt'' (Some ''d1'') mistyped))) = []"
proof -
  have l: "load_data demo_env ''docs/pages.txt'' =
     Inr [\<lparr>doc_id_attr = ''p5'', doc_text = replicate 150 (CHR ''a'')\<rparr>,
          \<lparr>doc_id_attr = ''p6'', doc_text = replicate 100 (CHR ''b'')\<rparr>]"
    by (simp add: demo_env_def)
  have i: "inserted (new_events ready (snd (insert_into_index demo_env ''docs/pages.txt'' (Some ''d1'') ready)))
     = [\<lparr>doc_id_attr = ''d1'', doc_text = replicate 150 (CHR ''a'')\<rparr>,
        \<lparr>doc_id_attr = ''d1'', doc_text = replicate 100 (CHR ''b'')\<rparr>]"
    by (simp add: demo_run_pages new_events_def) (simp add: ready_def)
  have g: "fst (get_documents_list (snd (insert_into_index demo_env ''docs/pages.txt'' (Some ''d1'') ready)))
     = [\<lparr>entry_id = ''d1'', entry_text = replicate 100 (CHR ''b'')\<rparr>]"
    by (simp add: demo_run_pages get_documents_list_def reload_stored_docs_def)
  have i': "inserted (new_events mistyped (snd (insert_into_index demo_env ''docs/a.txt'' (Some ''d1'') mistyped)))
     = [\<lparr>doc_id_attr = ''d1'', doc_text = ''hello world''\<rparr>]"
    by (simp add: demo_run_mistyped new_events_def) (simp add: mistyped_def)
  have g': "fst (get_documents_list (snd (insert_into_index demo_env ''docs/a.txt'' (Some ''d1'') mistyped))) = []"
    by (simp add: demo_run_mistyped get_documents_list_def reload_stored_docs_def)
       (simp add: mistyped_def)
  from l i g demo_init_mistyped i' g' show ?thesis by simp
qed

text \<open>
  Claim C4, amended. Given previews that are a dictionary, after an insertion with a non-empty
  explicit identifier \<open>k\<close> (the claim's \<^verbatim>\<open>"d1"\<close>) during which the index accepted at least
  one part, the list of documents contains an entry with identifier \<open>k\<close> whose text is the
  first 200 characters of the text of the last part that the index accepted, followed by
  \<^verbatim>\<open>...\<close> exactly when that text is longer than 200 characters. That part is one of the
  parts the file loaded as; for a file that loads as a single part it is the document's text.
\<close>

theorem insert_then_list:
  assumes "k \<noteq> []"
      and "stored_docs st = PyDict kvs"
      and "load_data env doc_file_path = Inr documents"
      and "insert_into_index env doc_file_path (Some k) st = (r, st')"
      and "inserted (new_events st st') \<noteq> []"
  shows "(let t = doc_text (last (inserted (new_events st st')))
          in t \<in> doc_text ` set documents \<and>
             lookup (stored_docs st') k = Some (take 200 t @ (if 200 < length t then ''...'' else [])) \<and>
             \<lparr>entry_id = k, entry_text = take 200 t @ (if 200 < length t then ''...'' else [])\<rparr>
               \<in> set (fst (get_documents_list st')))"
  using assms(4)
proof (cases rule: insert_into_index_cases)
  case unchanged
  with assms(5) show ?thesis by (simp add: new_events_same)
next
  case (looped idx docs e pids st1)
  from looped(4) assms(3) have docs: "docs = documents" by simp
  from process_documents_dict[OF assms(2) looped(2) looped(6)] obtain evs where
    evs: "trace st1 = trace st @ evs" "attempted evs = map (tagged (Some k) doc_file_path) docs"
      "stored_docs st1 = PyDict (fold record_preview (inserted evs) kvs)"
    by blast
  note le = insert_into_index_loop_events[OF looped(6) looped(7) evs(1)]
  let ?ds = "inserted evs"
  let ?t = "doc_text (last ?ds)"
  from assms(5) le(2) have ne: "?ds \<noteq> []" by simp
  have sub: "set ?ds \<subseteq> tagged (Some k) doc_file_path ` set documents"
    using inserted_subset_attempted[of evs] evs(2) docs by auto
  have ids: "\<forall>d \<in> set ?ds. doc_id_attr d = k"
    using sub assms(1) by (auto simp: tagged_def effective_doc_id_def)
  from ne have "last ?ds \<in> set ?ds" by simp
  with sub have t: "?t \<in> doc_text ` set documents"
    by (auto simp: tagged_def)
  have sd: "stored_docs st' = PyDict (fold record_preview ?ds kvs)"
    using le(1) evs(3) by simp
  have get: "dict_get (fold record_preview ?ds kvs) k = Some (preview ?t)"
    by (rule fold_record_preview_last[OF ne ids])
  then have "(k, preview ?t) \<in> set (fold record_preview ?ds kvs)"
    by (rule dict_get_in_set)
  then have "\<lparr>entry_id = k, entry_text = preview ?t\<rparr> \<in> set (fst (get_documents_list st'))"
    unfolding get_documents_list_dict[OF sd] by force
  with t get sd le(2) show ?thesis
    by (simp add: preview_def Let_def)
qed

theorem insert_then_list_witness:
  "stored_docs ready = PyDict [] \<and>
   load_data demo_env ''docs/long.txt'' =
     Inr [\<lparr>doc_id_attr = ''p3'', doc_text = replicate 201 (CHR ''x'')\<rparr>] \<and>
   inserted (new_events ready (snd (insert_into_index demo_env ''docs/long.txt'' (Some ''d1'') ready)))
     = [\<lparr>doc_id_attr = ''d1'', doc_text = replicate 201 (CHR ''x'')\<rparr>] \<and>
   \<lparr>entry_id = ''d1'', entry_text = replicate 200 (CHR ''x'') @ ''...''\<rparr>
     \<in> set (fst (get_documents_list
                    (snd (insert_into_index demo_env ''docs/long.txt'' (Some ''d1'') ready)))) \<and>
   load_data demo_env ''docs/a.txt'' = Inr [\<lparr>doc_id_attr = ''loader-1'', doc_text = ''hello world''\<rparr>] \<and>
   inserted (new_events ready (snd (insert_into_index demo_env ''docs/a.txt'' (Some ''d1'') ready)))
     = [\<lparr>doc_id_attr = ''d1'', doc_text = ''hello world''\<rparr>] \<and>
   \<lparr>entry_id = ''d1'', entry_text = ''hello world''\<rparr>
     \<in> set (fst (get_documents_list
                    (snd (insert_into_index demo_env ''docs/a.txt'' (Some ''d1'') ready))))"
proof -
  have k: "''d1'' \<noteq> []" by simp
  have d: "stored_docs ready = PyDict []" by (simp add: ready_def)
  have l: "load_data demo_env ''docs/long.txt'' =
             Inr [\<lparr>doc_id_attr = ''p3'', doc_text = replicate 201 (CHR ''x'')\<rparr>]"
    by (simp add: demo_env_def)
  have i: "inserted (new_events ready
               (snd (insert_into_index demo_env ''docs/long.txt'' (Some ''d1'') ready)))
             = [\<lparr>doc_id_attr = ''d1'', doc_text = replicate 201 (CHR ''x'')\<rparr>]"
    by (simp add: demo_run_long new_events_def) (simp add: ready_def)
  have t: "take 200 (replicate 201 (CHR ''x'')) = replicate 200 (CHR ''x'')" by simp
  have long: "\<lparr>entry_id = ''d1'', entry_text = replicate 200 (CHR ''x'') @ ''...''\<rparr>
     \<in> set (fst (get_documents_list
                    (snd (insert_into_index demo_env ''docs/long.txt'' (Some ''d1'') ready))))"
    using insert_then_list [OF k d l surjective_pairing] i t
    by (simp add: Let_def)
  have l': "load_data demo_env ''docs/a.txt'' =
              Inr [\<lparr>doc_id_attr = ''loader-1'', doc_text = ''hello world''\<rparr>]"
    by (simp add: demo_env_def)
  have i': "inserted (new_events ready
               (snd (insert_into_index demo_env ''docs/a.txt'' (Some ''d1'') ready)))
             = [\<lparr>doc_id_attr = ''d1'', doc_text = ''hello world''\<rparr>]"
    by (simp add: demo_run_a new_events_def) (simp add: ready_def)
  have short: "\<lparr>entry_id = ''d1'', entry_text = ''hello world''\<rparr>
     \<in> set (fst (get_documents_list
                    (snd (insert_into_index demo_env ''docs/a.txt'' (Some ''d1'') ready))))"
    using insert_then_list [OF k d l' surjective_pairing] i'
    by (simp add: Let_def)
  from d l i long l' i' short show ?thesis by simp
qed

text \<open>
  Claim C5, as the specification states it, fails when the caller supplies the empty string
  as identifier: the part is tagged with the base name of the path, not with the supplied
  identifier, and the identifier that the loader assigned is not consulted.
\<close>

theorem effective_doc_id_empty_counterexample:
  "effective_doc_id (Some []) ''loader-1'' ''docs/a.txt'' = ''a.txt'' \<and>
   attempted (new_events ready (snd (insert_into_index demo_env ''docs/a.txt'' (Some []) ready)))
     = [\<lparr>doc_id_attr = ''a.txt'', doc_text = ''hello world''\<rparr>]"
  by (simp add: insert_into_index_def demo_env_def ready_def try_insert_def
        effective_doc_id_def basename_def note_processed_def Let_def new_events_def
        persist_changes_def persist_index_def dump_stored_docs_def)

text \<open>
  Claim C5, amended. Every document that an insertion hands to the index is a part of the
  loaded file, tagged with: the supplied identifier when one is supplied and not empty; the
  identifier that the loader assigned when none is supplied and that identifier is not empty;
  the base name of the path in every other case.
\<close>

theorem effective_identifier:
  assumes "load_data env doc_file_path = Inr documents"
      and "insert_into_index env doc_file_path doc_id st = (r, st')"
      and "d' \<in> set (attempted (new_events st st'))"
  shows "\<exists>d \<in> set documents. doc_text d' = doc_text d \<and>
           doc_id_attr d' =
             (case doc_id of
                Some k \<Rightarrow> if k \<noteq> [] then k else basename doc_file_path
              | None \<Rightarrow> if doc_id_attr d \<noteq> [] then doc_id_attr d else basename doc_file_path)"
  using assms(2)
proof (cases rule: insert_into_index_cases)
  case unchanged
  with assms(3) show ?thesis by (simp add: new_events_same)
next
  case (looped idx docs e pids st1)
  from process_documents_frame[OF looped(6)] obtain evs where
    evs: "trace st1 = trace st @ evs" "set (attempted evs) \<subseteq> tagged doc_id doc_file_path ` set docs"
    by blast
  obtain evs2 where evs2: "trace st' = trace st1 @ evs2" "attempted evs2 = []"
    using persist_changes_trace[of env st1] looped(7) by (cases "e = None \<and> pids \<noteq> []") auto
  have "new_events st st' = evs @ evs2"
    using evs(1) evs2(1) by (simp add: new_events_def)
  with assms(3) evs2(2) have "d' \<in> set (attempted evs)"
    by (simp add: attempted_append)
  with evs(2) obtain d where d: "d \<in> set docs" "d' = tagged doc_id doc_file_path d"
    by blast
  from looped(4) assms(1) have "docs = documents" by simp
  with d show ?thesis
    by (intro bexI[of _ d]) (auto simp: tagged_def effective_doc_id_def split: option.splits)
qed

theorem effective_identifier_witness:
  "load_data demo_env ''docs/two.txt'' =
     Inr [\<lparr>doc_id_attr = ''p1'', doc_text = ''bad''\<rparr>, \<lparr>doc_id_attr = ''p2'', doc_text = ''good''\<rparr>] \<and>
   \<lparr>doc_id_attr = ''p2'', doc_text = ''good''\<rparr>
     \<in> set (attempted (new_events ready (snd (insert_into_index demo_env ''docs/two.txt'' None ready)))) \<and>
   (\<exists>d \<in> set [\<lparr>doc_id_attr = ''p1'', doc_text = ''bad''\<rparr>, \<lparr>doc_id_attr = ''p2'', doc_text = ''good''\<rparr>].
      ''good'' = doc_text d \<and> ''p2'' = (if doc_id_attr d \<noteq> [] then doc_id_attr d else basename ''docs/two.txt''))"
proof -
  have l: "load_data demo_env ''docs/two.txt'' =
     Inr [\<lparr>doc_id_attr = ''p1'', doc_text = ''bad''\<rparr>, \<lparr>doc_id_attr = ''p2'', doc_text = ''good''\<rparr>]"
    by (simp add: demo_env_def)
  have a: "\<lparr>doc_id_attr = ''p2'', doc_text = ''good''\<rparr>
     \<in> set (attempted (new_events ready (snd (insert_into_index demo_env ''docs/two.txt'' None ready))))"
    by (simp add: insert_into_index_def demo_env_def ready_def try_insert_def
        effective_doc_id_def basename_def note_processed_def Let_def new_events_def
        persist_changes_def persist_index_def dump_stored_docs_def)
  have i: "insert_into_index demo_env ''docs/two.txt'' None ready =
     (fst (insert_into_index demo_env ''docs/two.txt'' None ready),
      snd (insert_into_index demo_env ''docs/two.txt'' None ready))"
    by simp
  show ?thesis using effective_identifier [OF l i a] l a by simp
qed

text \<open>
  Claim C6, as the specification states it, fails in two ways. When \<^verbatim>\<open>initialize_index\<close>
  has bound a pickled value that is not a dictionary to \<^verbatim>\<open>stored_docs\<close>, the index accepts
  a part and nothing is written: the only collaborator call is the insertion, and the disk is
  as before. And on a disk that refuses writes, the index accepts a part, both writes are
  attempted and caught, and the snapshot and the preview file are as before.
\<close>

theorem persistence_iff_insertion_counterexample:
  "initialize_index demo_env mistyped_disk = (Returns (), mistyped) \<and>
   new_events mistyped (snd (insert_into_index demo_env ''docs/a.txt'' (Some ''d1'') mistyped))
     = [InsertDocument \<lparr>doc_id_attr = ''d1'', doc_text = ''hello world''\<rparr> True] \<and>
   saved_index (snd (insert_into_index demo_env ''docs/a.txt'' (Some ''d1'') mistyped)) = Snapshot [] \<and>
   pkl_file (snd (insert_into_index demo_env ''docs/a.txt'' (Some ''d1'') mistyped)) = Pickled NotADict \<and>
   index (snd (insert_into_index readonly_env ''docs/a.txt'' (Some ''d1'') ready))
     = Some [\<lparr>doc_id_attr = ''d1'', doc_text = ''hello world''\<rparr>] \<and>
   saved_index (snd (insert_into_index readonly_env ''docs/a.txt'' (Some ''d1'') ready)) = Snapshot [] \<and>
   pkl_file (snd (insert_into_index readonly_env ''docs/a.txt'' (Some ''d1'') ready)) = PklAbsent"
proof -
  have n: "new_events mistyped (snd (insert_into_index demo_env ''docs/a.txt'' (Some ''d1'') mistyped))
     = [InsertDocument \<lparr>doc_id_attr = ''d1'', doc_text = ''hello world''\<rparr> True]"
    by (simp add: demo_run_mistyped new_events_def) (simp add: mistyped_def)
  have d: "saved_index (snd (insert_into_index demo_env ''docs/a.txt'' (Some ''d1'') mistyped)) = Snapshot []"
    "pkl_file (snd (insert_into_index demo_env ''docs/a.txt'' (Some ''d1'') mistyped)) = Pickled NotADict"
    by (simp_all add: demo_run_mistyped) (simp_all add: mistyped_def)
  have r: "index (snd (insert_into_index readonly_env ''docs/a.txt'' (Some ''d1'') ready))
     = Some [\<lparr>doc_id_attr = ''d1'', doc_text = ''hello world''\<rparr>]"
    "saved_index (snd (insert_into_index readonly_env ''docs/a.txt'' (Some ''d1'') ready)) = Snapshot []"
    "pkl_file (snd (insert_into_index readonly_env ''docs/a.txt'' (Some ''d1'') ready)) = PklAbsent"
    by (simp_all add: demo_run_readonly) (simp_all add: ready_def)
  from demo_init_mistyped n d r show ?thesis by simp
qed

text \<open>
  Claim C6, amended. An insertion during which the index accepted no part makes no write and
  leaves the saved index and the preview file as they were, whatever the state; this covers
  the early returns and a loader that produced no parts. Given previews that are a
  dictionary, an insertion during which the index accepted at least one part ends with
  exactly one write of the index followed by exactly one write of the previews, after all
  parts were processed. A write that succeeds leaves on disk the index, respectively the
  previews, as the insertion left them in memory; a write that raises is caught and leaves on
  disk what the failed write left, and the write of the previews is attempted in either case.
\<close>

theorem persistence_iff_insertion:
  assumes "insert_into_index env doc_file_path doc_id st = (r, st')"
  shows "(inserted (new_events st st') = [] \<longrightarrow>
            PersistIndex \<notin> set (new_events st st') \<and> PickleDump \<notin> set (new_events st st') \<and>
            saved_index st' = saved_index st \<and> pkl_file st' = pkl_file st)
       \<and> ((\<exists>kvs. stored_docs st = PyDict kvs) \<and> inserted (new_events st st') \<noteq> [] \<longrightarrow>
            (\<exists>evs idx'.
               new_events st st' = evs @ [PersistIndex, PickleDump] \<and>
               PersistIndex \<notin> set evs \<and> PickleDump \<notin> set evs \<and>
               index st' = Some idx' \<and>
               saved_index st' =
                 (case storage_persist env idx' (saved_index st) of
                    None \<Rightarrow> Snapshot idx'
                  | Some (e, left) \<Rightarrow> left) \<and>
               pkl_file st' =
                 (case pickle_dump env (stored_docs st') (pkl_file st) of
                    None \<Rightarrow> Pickled (stored_docs st')
                  | Some (e, left) \<Rightarrow> left)))"
  using assms(1)
proof (cases rule: insert_into_index_cases)
  case unchanged
  then show ?thesis by (simp add: new_events_same)
next
  case (looped idx docs e pids st1)
  from process_documents_frame[OF looped(6)] obtain evs where
    evs: "trace st1 = trace st @ evs" "PersistIndex \<notin> set evs" "PickleDump \<notin> set evs"
      "set pids \<subseteq> set [] \<union> doc_id_attr ` set (inserted evs)"
      "saved_index st1 = saved_index st" "pkl_file st1 = pkl_file st"
    by blast
  note le = insert_into_index_loop_events[OF looped(6) looped(7) evs(1)]
  have first: "inserted (new_events st st') = [] \<longrightarrow>
            PersistIndex \<notin> set (new_events st st') \<and> PickleDump \<notin> set (new_events st st') \<and>
            saved_index st' = saved_index st \<and> pkl_file st' = pkl_file st"
  proof
    assume "inserted (new_events st st') = []"
    with le(2) evs(4) have "pids = []" by simp
    with looped(7) have "st' = st1" by simp
    with evs show "PersistIndex \<notin> set (new_events st st') \<and> PickleDump \<notin> set (new_events st st') \<and>
            saved_index st' = saved_index st \<and> pkl_file st' = pkl_file st"
      by (simp add: new_events_def)
  qed
  have second: "(\<exists>kvs. stored_docs st = PyDict kvs) \<and> inserted (new_events st st') \<noteq> [] \<longrightarrow>
            (\<exists>evs idx'.
               new_events st st' = evs @ [PersistIndex, PickleDump] \<and>
               PersistIndex \<notin> set evs \<and> PickleDump \<notin> set evs \<and>
               index st' = Some idx' \<and>
               saved_index st' =
                 (case storage_persist env idx' (saved_index st) of
                    None \<Rightarrow> Snapshot idx'
                  | Some (e, left) \<Rightarrow> left) \<and>
               pkl_file st' =
                 (case pickle_dump env (stored_docs st') (pkl_file st) of
                    None \<Rightarrow> Pickled (stored_docs st')
                  | Some (e, left) \<Rightarrow> left))"
  proof (intro impI, elim conjE)
    assume "\<exists>kvs. stored_docs st = PyDict kvs" and ins: "inserted (new_events st st') \<noteq> []"
    then obtain kvs where kvs: "stored_docs st = PyDict kvs" by blast
    from process_documents_dict[OF kvs looped(2) looped(6)] obtain evs' where
      d: "e = None" "index st1 \<noteq> None" "trace st1 = trace st @ evs'"
         "pids = fold (\<lambda>d ps. note_processed ps (doc_id_attr d)) (inserted evs') []"
      by blast
    from d(3) evs(1) have "evs' = evs" by simp
    with d(4) ins le(2) have "pids \<noteq> []" by (simp add: note_processed_fold_empty)
    with d(1) looped(7) have st': "st' = persist_changes env st1" by simp
    from d(2) obtain idx1 where idx1: "index st1 = Some idx1" by auto
    from persist_changes_Some[OF idx1, of env] st' evs(1)
    have ne: "new_events st st' = evs @ [PersistIndex, PickleDump]"
      by (simp add: new_events_def)
    note disk = persist_changes_disk[OF idx1, of env]
    have sd: "stored_docs st' = stored_docs st1"
      using st' by (simp add: persist_changes_stored_docs)
    have "index st' = Some idx1" using st' disk(3) by simp
    moreover have "saved_index st' =
                 (case storage_persist env idx1 (saved_index st) of
                    None \<Rightarrow> Snapshot idx1
                  | Some (e, left) \<Rightarrow> left)"
      using st' disk(1) evs(5) by simp
    moreover have "pkl_file st' =
                 (case pickle_dump env (stored_docs st') (pkl_file st) of
                    None \<Rightarrow> Pickled (stored_docs st')
                  | Some (e, left) \<Rightarrow> left)"
      unfolding sd using st' disk(2) evs(6) by simp
    ultimately show "\<exists>evs idx'.
               new_events st st' = evs @ [PersistIndex, PickleDump] \<and>
               PersistIndex \<notin> set evs \<and> PickleDump \<notin> set evs \<and>
               index st' = Some idx' \<and>
               saved_index st' =
                 (case storage_persist env idx' (saved_index st) of
                    None \<Rightarrow> Snapshot idx'
                  | Some (e, left) \<Rightarrow> left) \<and>
               pkl_file st' =
                 (case pickle_dump env (stored_docs st') (pkl_file st) of
                    None \<Rightarrow> Pickled (stored_docs st')
                  | Some (e, left) \<Rightarrow> left)"
      using ne evs(2,3) by blast
  qed
  from first second show ?thesis by blast
qed

theorem persistence_iff_insertion_witness:
  "inserted (new_events ready (snd (insert_into_index demo_env ''docs/bad.txt'' None ready))) = [] \<and>
   saved_index (snd (insert_into_index demo_env ''docs/bad.txt'' None ready)) = saved_index ready \<and>
   pkl_file (snd (insert_into_index demo_env ''docs/bad.txt'' None ready)) = pkl_file ready \<and>
   (\<exists>kvs. stored_docs ready = PyDict kvs) \<and>
   inserted (new_events ready (snd (insert_into_index demo_env ''docs/two.txt'' None ready)))
     = [\<lparr>doc_id_attr = ''p2'', doc_text = ''good''\<rparr>] \<and>
   new_events ready (snd (insert_into_index demo_env ''docs/two.txt'' None ready))
     = [InsertDocument \<lparr>doc_id_attr = ''p1'', doc_text = ''bad''\<rparr> False,
        InsertDocument \<lparr>doc_id_attr = ''p2'', doc_text = ''good''\<rparr> True] @ [PersistIndex, PickleDump] \<and>
   storage_persist demo_env [\<lparr>doc_id_attr = ''p2'', doc_text = ''good''\<rparr>] (saved_index ready) = None \<and>
   saved_index (snd (insert_into_index demo_env ''docs/two.txt'' None ready))
     = Snapshot [\<lparr>doc_id_attr = ''p2'', doc_text = ''good''\<rparr>] \<and>
   pkl_file (snd (insert_into_index demo_env ''docs/two.txt'' None ready))
     = Pickled (PyDict [(''p2'', ''good'')])"
proof -
  have none: "inserted (new_events ready (snd (insert_into_index demo_env ''docs/bad.txt'' None ready))) = []"
    by (simp add: demo_run_bad new_events_def) (simp add: ready_def)
  have some: "inserted (new_events ready (snd (insert_into_index demo_env ''docs/two.txt'' None ready)))
     = [\<lparr>doc_id_attr = ''p2'', doc_text = ''good''\<rparr>]"
    by (simp add: demo_run_two new_events_def) (simp add: ready_def)
  have evs: "new_events ready (snd (insert_into_index demo_env ''docs/two.txt'' None ready))
     = [InsertDocument \<lparr>doc_id_attr = ''p1'', doc_text = ''bad''\<rparr> False,
        InsertDocument \<lparr>doc_id_attr = ''p2'', doc_text = ''good''\<rparr> True] @ [PersistIndex, PickleDump]"
    by (simp add: demo_run_two new_events_def) (simp add: ready_def)
  have dict: "\<exists>kvs. stored_docs ready = PyDict kvs" by (simp add: ready_def)
  have ok: "storage_persist demo_env [\<lparr>doc_id_attr = ''p2'', doc_text = ''good''\<rparr>] (saved_index ready) = None"
    by (simp add: demo_env_def)
  have disk: "saved_index (snd (insert_into_index demo_env ''docs/two.txt'' None ready))
     = Snapshot [\<lparr>doc_id_attr = ''p2'', doc_text = ''good''\<rparr>]"
    "pkl_file (snd (insert_into_index demo_env ''docs/two.txt'' None ready))
     = Pickled (PyDict [(''p2'', ''good'')])"
    by (simp_all add: demo_run_two)
  have unchanged: "saved_index (snd (insert_into_index demo_env ''docs/bad.txt'' None ready)) = saved_index ready"
    "pkl_file (snd (insert_into_index demo_env ''docs/bad.txt'' None ready)) = pkl_file ready"
    using persistence_iff_insertion [OF surjective_pairing,
        where env = demo_env and doc_file_path = "''docs/bad.txt''" and doc_id = None and st = ready]
      none by simp_all
  show ?thesis
    using persistence_iff_insertion [OF surjective_pairing,
        where env = demo_env and doc_file_path = "''docs/two.txt''" and doc_id = None and st = ready]
      none some evs dict ok disk unchanged
    by simp
qed

text \<open>
  Claim C8: an insertion never raises, whatever the index does with the parts. When the
  index rejects a part, the loop carries on with the remaining parts, with the same list of
  processed identifiers and the same previews. With an initialised index, previews that are a
  dictionary and a file that loads, every part of the file is handed to the index, in order.
\<close>

theorem insertion_failure_is_skipped:
  "fst (insert_into_index env doc_file_path doc_id st) = Returns ()
   \<and> (fst (try_insert env (tagged doc_id doc_file_path document) st) \<noteq> None \<longrightarrow>
        process_documents env doc_file_path doc_id (document # documents) processed_ids st =
        process_documents env doc_file_path doc_id documents processed_ids
          (snd (try_insert env (tagged doc_id doc_file_path document) st)))
   \<and> (index st \<noteq> None \<and> (\<exists>kvs. stored_docs st = PyDict kvs) \<and> path_exists env doc_file_path \<and>
      load_data env doc_file_path = Inr documents \<longrightarrow>
        attempted (new_events st (snd (insert_into_index env doc_file_path doc_id st))) =
          map (tagged doc_id doc_file_path) documents)"
proof (intro conjI impI)
  obtain r st' where run: "insert_into_index env doc_file_path doc_id st = (r, st')"
    by (cases "insert_into_index env doc_file_path doc_id st")
  from run have "r = Returns ()"
    by (cases rule: insert_into_index_cases)
  with run show "fst (insert_into_index env doc_file_path doc_id st) = Returns ()"
    by simp
  {
    assume "fst (try_insert env (tagged doc_id doc_file_path document) st) \<noteq> None"
    then show "process_documents env doc_file_path doc_id (document # documents) processed_ids st =
        process_documents env doc_file_path doc_id documents processed_ids
          (snd (try_insert env (tagged doc_id doc_file_path document) st))"
      by (cases "try_insert env (tagged doc_id doc_file_path document) st")
         (auto simp: tagged_def Let_def)
  }
  {
    assume a: "index st \<noteq> None \<and> (\<exists>kvs. stored_docs st = PyDict kvs) \<and> path_exists env doc_file_path \<and>
      load_data env doc_file_path = Inr documents"
    then obtain idx0 kvs where idx0: "index st = Some idx0" and kvs: "stored_docs st = PyDict kvs" by auto
    have "attempted (new_events st st') = map (tagged doc_id doc_file_path) documents"
    proof (cases "documents = []")
      case True
      with a idx0 run have "st' = st" by (simp add: insert_into_index_def)
      with True show ?thesis by (simp add: new_events_same)
    next
      case False
      with a idx0 have "path_exists env doc_file_path" "load_data env doc_file_path = Inr documents"
        by simp_all
      from insert_into_index_loaded[OF idx0 this False, of doc_id] run obtain e pids st1 where
        l: "process_documents env doc_file_path doc_id documents [] st = (e, pids, st1)"
           "st' = (if e = None \<and> pids \<noteq> [] then persist_changes env st1 else st1)"
        by auto
      from process_documents_dict[OF kvs idx0 l(1)] obtain evs where
        evs: "trace st1 = trace st @ evs" "attempted evs = map (tagged doc_id doc_file_path) documents"
        by blast
      from insert_into_index_loop_events(3)[OF l(1) l(2) evs(1)] evs(2)
      show ?thesis by simp
    qed
    with run show "attempted (new_events st (snd (insert_into_index env doc_file_path doc_id st))) =
          map (tagged doc_id doc_file_path) documents"
      by simp
  }
qed

theorem insertion_failure_is_skipped_witness:
  "fst (try_insert demo_env (tagged None ''docs/two.txt'' \<lparr>doc_id_attr = ''p1'', doc_text = ''bad''\<rparr>) ready) \<noteq> None \<and>
   index ready \<noteq> None \<and> (\<exists>kvs. stored_docs ready = PyDict kvs) \<and> path_exists demo_env ''docs/two.txt'' \<and>
   load_data demo_env ''docs/two.txt'' =
     Inr [\<lparr>doc_id_attr = ''p1'', doc_text = ''bad''\<rparr>, \<lparr>doc_id_attr = ''p2'', doc_text = ''good''\<rparr>] \<and>
   fst (insert_into_index demo_env ''docs/two.txt'' None ready) = Returns () \<and>
   attempted (new_events ready (snd (insert_into_index demo_env ''docs/two.txt'' None ready))) =
     [\<lparr>doc_id_attr = ''p1'', doc_text = ''bad''\<rparr>, \<lparr>doc_id_attr = ''p2'', doc_text = ''good''\<rparr>]"
proof -
  have f: "fst (try_insert demo_env (tagged None ''docs/two.txt'' \<lparr>doc_id_attr = ''p1'', doc_text = ''bad''\<rparr>) ready) \<noteq> None"
    by (simp add: try_insert_def tagged_def effective_doc_id_def demo_env_def ready_def)
  have h: "index ready \<noteq> None \<and> (\<exists>kvs. stored_docs ready = PyDict kvs) \<and> path_exists demo_env ''docs/two.txt'' \<and>
    load_data demo_env ''docs/two.txt'' =
      Inr [\<lparr>doc_id_attr = ''p1'', doc_text = ''bad''\<rparr>, \<lparr>doc_id_attr = ''p2'', doc_text = ''good''\<rparr>]"
    by (simp add: ready_def demo_env_def)
  have t: "map (tagged None ''docs/two.txt'')
      [\<lparr>doc_id_attr = ''p1'', doc_text = ''bad''\<rparr>, \<lparr>doc_id_attr = ''p2'', doc_text = ''good''\<rparr>] =
     [\<lparr>doc_id_attr = ''p1'', doc_text = ''bad''\<rparr>, \<lparr>doc_id_attr = ''p2'', doc_text = ''good''\<rparr>]"
    by (simp add: tagged_def effective_doc_id_def)
  show ?thesis
    using insertion_failure_is_skipped [where env = demo_env and doc_file_path = "''docs/two.txt''"
        and doc_id = None and st = ready
        and document = "\<lparr>doc_id_attr = ''p1'', doc_text = ''bad''\<rparr>"
        and documents = "[\<lparr>doc_id_attr = ''p1'', doc_text = ''bad''\<rparr>, \<lparr>doc_id_attr = ''p2'', doc_text = ''good''\<rparr>]"]
      f h t
    by simp
qed



section \<open>Initialisation\<close>

text \<open>
  Claim C9, as the specification states it, fails in two ways. With a saved index and a
  preview file that both fail to load, on a disk that refuses writes, \<^verbatim>\<open>initialize_index\<close>
  raises the exception of the write of the fresh index. And with a preview file that is a
  well-formed pickle of a value that is not a dictionary, \<^verbatim>\<open>initialize_index\<close> returns with
  that value bound to \<^verbatim>\<open>stored_docs\<close>, not with empty previews.
\<close>

theorem initialize_index_counterexample:
  "(\<exists>e. saved_index damaged = DirCorrupt e) \<and> (\<exists>e. pkl_file damaged = PklCorrupt e) \<and>
   fst (initialize_index readonly_env damaged) = Raises (Exception ''read-only file system'') \<and>
   saved_index mistyped_disk = DirAbsent \<and> pkl_file mistyped_disk = Pickled NotADict \<and>
   fst (initialize_index demo_env mistyped_disk) = Returns () \<and>
   stored_docs (snd (initialize_index demo_env mistyped_disk)) = NotADict"
proof -
  have "fst (initialize_index readonly_env damaged) = Raises (Exception ''read-only file system'')"
    by (simp add: initialize_index_def create_index_def persist_index_def readonly_env_def
          demo_env_def damaged_def)
  moreover have "stored_docs mistyped = NotADict" by (simp add: mistyped_def)
  ultimately show ?thesis
    by (simp add: demo_init_mistyped) (simp add: damaged_def mistyped_disk_def)
qed

text \<open>
  Claim C9, amended, for every state of the disk. No exception of a failed load reaches the
  caller: \<^verbatim>\<open>initialize_index\<close> raises exactly when the saved index is absent or fails to load
  and the write of the fresh empty index raises, and then it raises the exception of that
  write, with the fresh index bound in memory. Otherwise it returns: with the saved index when
  that loads, and no write; with a fresh empty index, persisted by exactly one write, when the
  saved index is absent or fails to load. On return the previews are the empty dictionary when
  the preview file is absent or fails to load, and the dictionary in the file when it holds
  one; whenever the file does not hold a dictionary, the list of documents after
  initialisation is empty.
\<close>

theorem initialize_index_recovers:
  "(\<forall>e. fst (initialize_index env st) = Raises e \<longrightarrow>
        (\<forall>idx. saved_index st \<noteq> Snapshot idx) \<and>
        (\<exists>left. storage_persist env (empty_index env) (saved_index st) = Some (e, left)))
   \<and> (\<forall>e left. (\<forall>idx. saved_index st \<noteq> Snapshot idx) \<and>
          storage_persist env (empty_index env) (saved_index st) = Some (e, left) \<longrightarrow>
        initialize_index env st =
          (Raises e, st\<lparr>index := Some (empty_index env), saved_index := left,
                        trace := trace st @ [PersistIndex]\<rparr>))
   \<and> ((\<exists>idx. saved_index st = Snapshot idx) \<or>
      storage_persist env (empty_index env) (saved_index st) = None \<longrightarrow>
        (\<exists>st'. initialize_index env st = (Returns (), st') \<and>
           index st' = Some (case saved_index st of Snapshot idx \<Rightarrow> idx | _ \<Rightarrow> empty_index env) \<and>
           saved_index st' =
             Snapshot (case saved_index st of Snapshot idx \<Rightarrow> idx | _ \<Rightarrow> empty_index env) \<and>
           new_events st st' = (case saved_index st of Snapshot idx \<Rightarrow> [] | _ \<Rightarrow> [PersistIndex]) \<and>
           pkl_file st' = pkl_file st \<and>
           (pkl_file st = PklAbsent \<or> (\<exists>e. pkl_file st = PklCorrupt e) \<longrightarrow>
              stored_docs st' = PyDict []) \<and>
           (\<forall>kvs. pkl_file st = Pickled (PyDict kvs) \<longrightarrow> stored_docs st' = PyDict kvs) \<and>
           ((\<forall>kvs. pkl_file st \<noteq> Pickled (PyDict kvs)) \<longrightarrow> fst (get_documents_list st') = [])))"
proof (intro conjI)
  show "\<forall>e. fst (initialize_index env st) = Raises e \<longrightarrow>
        (\<forall>idx. saved_index st \<noteq> Snapshot idx) \<and>
        (\<exists>left. storage_persist env (empty_index env) (saved_index st) = Some (e, left))"
    by (cases "saved_index st")
       (auto simp: initialize_index_def create_index_def persist_index_def
          split: option.splits prod.splits)
  show "\<forall>e left. (\<forall>idx. saved_index st \<noteq> Snapshot idx) \<and>
          storage_persist env (empty_index env) (saved_index st) = Some (e, left) \<longrightarrow>
        initialize_index env st =
          (Raises e, st\<lparr>index := Some (empty_index env), saved_index := left,
                        trace := trace st @ [PersistIndex]\<rparr>)"
    by (cases "saved_index st")
       (auto simp: initialize_index_def create_index_def persist_index_def)
  show "(\<exists>idx. saved_index st = Snapshot idx) \<or>
      storage_persist env (empty_index env) (saved_index st) = None \<longrightarrow>
        (\<exists>st'. initialize_index env st = (Returns (), st') \<and>
           index st' = Some (case saved_index st of Snapshot idx \<Rightarrow> idx | _ \<Rightarrow> empty_index env) \<and>
           saved_index st' =
             Snapshot (case saved_index st of Snapshot idx \<Rightarrow> idx | _ \<Rightarrow> empty_index env) \<and>
           new_events st st' = (case saved_index st of Snapshot idx \<Rightarrow> [] | _ \<Rightarrow> [PersistIndex]) \<and>
           pkl_file st' = pkl_file st \<and>
           (pkl_file st = PklAbsent \<or> (\<exists>e. pkl_file st = PklCorrupt e) \<longrightarrow>
              stored_docs st' = PyDict []) \<and>
           (\<forall>kvs. pkl_file st = Pickled (PyDict kvs) \<longrightarrow> stored_docs st' = PyDict kvs) \<and>
           ((\<forall>kvs. pkl_file st \<noteq> Pickled (PyDict kvs)) \<longrightarrow> fst (get_documents_list st') = []))"
  proof
    assume a: "(\<exists>idx. saved_index st = Snapshot idx) \<or>
      storage_persist env (empty_index env) (saved_index st) = None"
    show "\<exists>st'. initialize_index env st = (Returns (), st') \<and>
           index st' = Some (case saved_index st of Snapshot idx \<Rightarrow> idx | _ \<Rightarrow> empty_index env) \<and>
           saved_index st' =
             Snapshot (case saved_index st of Snapshot idx \<Rightarrow> idx | _ \<Rightarrow> empty_index env) \<and>
           new_events st st' = (case saved_index st of Snapshot idx \<Rightarrow> [] | _ \<Rightarrow> [PersistIndex]) \<and>
           pkl_file st' = pkl_file st \<and>
           (pkl_file st = PklAbsent \<or> (\<exists>e. pkl_file st = PklCorrupt e) \<longrightarrow>
              stored_docs st' = PyDict []) \<and>
           (\<forall>kvs. pkl_file st = Pickled (PyDict kvs) \<longrightarrow> stored_docs st' = PyDict kvs) \<and>
           ((\<forall>kvs. pkl_file st \<noteq> Pickled (PyDict kvs)) \<longrightarrow> fst (get_documents_list st') = [])"
    proof (cases "saved_index st")
      case (Snapshot idx)
      let ?s = "st\<lparr>index := Some idx\<rparr>"
      have "initialize_index env st = (Returns (), load_stored_docs ?s)"
        using Snapshot by (simp add: initialize_index_def)
      moreover have "pkl_file ?s = pkl_file st" by simp
      ultimately show ?thesis
        using Snapshot load_stored_docs_facts[of ?s] get_documents_list_after_load[of ?s]
        by (intro exI[of _ "load_stored_docs ?s"]) (simp add: new_events_def)
    next
      case DirAbsent
      let ?s = "st\<lparr>index := Some (empty_index env), saved_index := Snapshot (empty_index env),
                    trace := trace st @ [PersistIndex]\<rparr>"
      have "initialize_index env st = (Returns (), load_stored_docs ?s)"
        using DirAbsent a by (simp add: initialize_index_def create_index_def persist_index_def)
      moreover have "pkl_file ?s = pkl_file st" by simp
      ultimately show ?thesis
        using DirAbsent load_stored_docs_facts[of ?s] get_documents_list_after_load[of ?s]
        by (intro exI[of _ "load_stored_docs ?s"]) (simp add: new_events_def)
    next
      case (DirCorrupt x)
      let ?s = "st\<lparr>index := Some (empty_index env), saved_index := Snapshot (empty_index env),
                    trace := trace st @ [PersistIndex]\<rparr>"
      have "initialize_index env st = (Returns (), load_stored_docs ?s)"
        using DirCorrupt a by (simp add: initialize_index_def create_index_def persist_index_def)
      moreover have "pkl_file ?s = pkl_file st" by simp
      ultimately show ?thesis
        using DirCorrupt load_stored_docs_facts[of ?s] get_documents_list_after_load[of ?s]
        by (intro exI[of _ "load_stored_docs ?s"]) (simp add: new_events_def)
    qed
  qed
qed

theorem initialize_index_recovers_witness:
  "(\<exists>e. saved_index damaged = DirCorrupt e) \<and> (\<exists>e. pkl_file damaged = PklCorrupt e) \<and>
   storage_persist demo_env (empty_index demo_env) (saved_index damaged) = None \<and>
   (\<exists>st'. initialize_index demo_env damaged = (Returns (), st') \<and>
      index st' = Some [] \<and> saved_index st' = Snapshot [] \<and> new_events damaged st' = [PersistIndex] \<and>
      stored_docs st' = PyDict [] \<and> fst (get_documents_list st') = []) \<and>
   storage_persist readonly_env (empty_index readonly_env) (saved_index damaged)
     = Some (Exception ''read-only file system'', saved_index damaged) \<and>
   fst (initialize_index readonly_env damaged) = Raises (Exception ''read-only file system'')"
proof -
  have a: "\<exists>e. saved_index damaged = DirCorrupt e" "\<exists>e. pkl_file damaged = PklCorrupt e"
    by (simp_all add: damaged_def)
  have n: "\<forall>idx. saved_index damaged \<noteq> Snapshot idx" by (simp add: damaged_def)
  have k: "\<forall>kvs. pkl_file damaged \<noteq> Pickled (PyDict kvs)" by (simp add: damaged_def)
  have c: "storage_persist demo_env (empty_index demo_env) (saved_index damaged) = None"
    by (simp add: demo_env_def)
  have d: "empty_index demo_env = []" by (simp add: demo_env_def)
  have s: "(case saved_index damaged of Snapshot idx \<Rightarrow> idx | _ \<Rightarrow> empty_index demo_env) = []"
    "(case saved_index damaged of Snapshot idx \<Rightarrow> [] | _ \<Rightarrow> [PersistIndex]) = [PersistIndex]"
    by (simp_all add: damaged_def demo_env_def)
  have r: "storage_persist readonly_env (empty_index readonly_env) (saved_index damaged)
     = Some (Exception ''read-only file system'', saved_index damaged)"
    by (simp add: readonly_env_def)
  note th = initialize_index_recovers [of demo_env damaged]
  from th have "(\<exists>idx. saved_index damaged = Snapshot idx) \<or>
      storage_persist demo_env (empty_index demo_env) (saved_index damaged) = None \<longrightarrow>
        (\<exists>st'. initialize_index demo_env damaged = (Returns (), st') \<and>
           index st' = Some (case saved_index damaged of Snapshot idx \<Rightarrow> idx | _ \<Rightarrow> empty_index demo_env) \<and>
           saved_index st' =
             Snapshot (case saved_index damaged of Snapshot idx \<Rightarrow> idx | _ \<Rightarrow> empty_index demo_env) \<and>
           new_events damaged st' = (case saved_index damaged of Snapshot idx \<Rightarrow> [] | _ \<Rightarrow> [PersistIndex]) \<and>
           pkl_file st' = pkl_file damaged \<and>
           (pkl_file damaged = PklAbsent \<or> (\<exists>e. pkl_file damaged = PklCorrupt e) \<longrightarrow>
              stored_docs st' = PyDict []) \<and>
           (\<forall>kvs. pkl_file damaged = Pickled (PyDict kvs) \<longrightarrow> stored_docs st' = PyDict kvs) \<and>
           ((\<forall>kvs. pkl_file damaged \<noteq> Pickled (PyDict kvs)) \<longrightarrow> fst (get_documents_list st') = []))"
    by (rule conjunct2[THEN conjunct2])
  with c obtain st' where st': "initialize_index demo_env damaged = (Returns (), st')"
      "index st' = Some (case saved_index damaged of Snapshot idx \<Rightarrow> idx | _ \<Rightarrow> empty_index demo_env)"
      "saved_index st' =
             Snapshot (case saved_index damaged of Snapshot idx \<Rightarrow> idx | _ \<Rightarrow> empty_index demo_env)"
      "new_events damaged st' = (case saved_index damaged of Snapshot idx \<Rightarrow> [] | _ \<Rightarrow> [PersistIndex])"
      "pkl_file damaged = PklAbsent \<or> (\<exists>e. pkl_file damaged = PklCorrupt e) \<longrightarrow>
              stored_docs st' = PyDict []"
      "(\<forall>kvs. pkl_file damaged \<noteq> Pickled (PyDict kvs)) \<longrightarrow> fst (get_documents_list st') = []"
    by blast
  from st' a k s d have ok: "\<exists>st'. initialize_index demo_env damaged = (Returns (), st') \<and>
      index st' = Some [] \<and> saved_index st' = Snapshot [] \<and> new_events damaged st' = [PersistIndex] \<and>
      stored_docs st' = PyDict [] \<and> fst (get_documents_list st') = []"
    by (intro exI[of _ st']) simp
  from initialize_index_recovers [of readonly_env damaged]
  have "\<forall>e left. (\<forall>idx. saved_index damaged \<noteq> Snapshot idx) \<and>
          storage_persist readonly_env (empty_index readonly_env) (saved_index damaged) = Some (e, left) \<longrightarrow>
        initialize_index readonly_env damaged =
          (Raises e, damaged\<lparr>index := Some (empty_index readonly_env), saved_index := left,
                        trace := trace damaged @ [PersistIndex]\<rparr>)"
    by (rule conjunct2[THEN conjunct1])
  with n r have raises: "fst (initialize_index readonly_env damaged) = Raises (Exception ''read-only file system'')"
    by simp
  from a c ok r raises show ?thesis by blast
qed

end
